theory Spec2Isabelle
  imports Main "HOL-Library.Word"
begin

unbundle bit_operations_syntax

text \<open>
  The five handlers of \<^verbatim>\<open>main.go\<close> (\<^verbatim>\<open>createTask\<close>, \<^verbatim>\<open>getAllTasks\<close>, \<^verbatim>\<open>getTaskByID\<close>,
  \<^verbatim>\<open>updateTask\<close>, \<^verbatim>\<open>deleteTask\<close>) as functions from a request and the collection
  \<^verbatim>\<open>taskdb.tasks\<close> to a response and the collection afterwards. The calls that leave the
  program (the MongoDB driver, the clock, the identifier generator) are modelled beside
  them: the collection as the list of its documents, in insertion order, and what the
  outside world answers during a request as a record of those answers.
\<close>

section \<open>Data model\<close>

subsection \<open>Identifiers\<close>

text \<open>
  \<^verbatim>\<open>primitive.ObjectID\<close> is a \<^verbatim>\<open>[12]byte\<close>. The constructor below has one argument per
  byte, so a value of the type has exactly twelve bytes, as in Go.
\<close>

type_synonym byte = "8 word"

datatype ObjectID =
  ObjectID byte byte byte byte byte byte byte byte byte byte byte byte

definition NilObjectID :: ObjectID where
  "NilObjectID = ObjectID 0 0 0 0 0 0 0 0 0 0 0 0"

text \<open>
  \<^verbatim>\<open>ObjectID.Hex\<close> (the JSON form of the \<^verbatim>\<open>id\<close> field) is \<^verbatim>\<open>hex.EncodeToString\<close>:
  two lower-case digits per byte, the high nibble first.
\<close>

definition hextable :: string where
  "hextable = ''0123456789abcdef''"

definition encodeByte :: "byte \<Rightarrow> string" where
  "encodeByte v = [hextable ! unat (drop_bit 4 v), hextable ! unat (v AND 15)]"

fun Hex :: "ObjectID \<Rightarrow> string" where
  "Hex (ObjectID b0 b1 b2 b3 b4 b5 b6 b7 b8 b9 b10 b11) =
     concat (map encodeByte [b0, b1, b2, b3, b4, b5, b6, b7, b8, b9, b10, b11])"

text \<open>
  \<^verbatim>\<open>primitive.ObjectIDFromHex\<close>: the string must have 24 characters and
  \<^verbatim>\<open>hex.Decode\<close> must accept it. \<^verbatim>\<open>fromHexChar\<close> takes the digits
  \<^verbatim>\<open>'0'..'9'\<close> (48..57), \<^verbatim>\<open>'a'..'f'\<close> (97..102) and \<^verbatim>\<open>'A'..'F'\<close> (65..70); a pair of
  digits gives the byte \<^verbatim>\<open>a << 4 | b\<close>.
\<close>

definition fromHexChar :: "char \<Rightarrow> byte option" where
  "fromHexChar c =
     (let n = (of_char c :: nat) in
      if 48 \<le> n \<and> n \<le> 57 then Some (of_nat (n - 48))
      else if 97 \<le> n \<and> n \<le> 102 then Some (of_nat (n - 97 + 10))
      else if 65 \<le> n \<and> n \<le> 70 then Some (of_nat (n - 65 + 10))
      else None)"

fun hexDecode :: "string \<Rightarrow> byte list option" where
  "hexDecode [] = Some []"
| "hexDecode [a] = None"
| "hexDecode (a # b # cs) =
     (case fromHexChar a of
        None \<Rightarrow> None
      | Some x \<Rightarrow>
          (case fromHexChar b of
             None \<Rightarrow> None
           | Some y \<Rightarrow>
               (case hexDecode cs of
                  None \<Rightarrow> None
                | Some bs \<Rightarrow> Some ((push_bit 4 x OR y) # bs))))"

fun fromBytes :: "byte list \<Rightarrow> ObjectID option" where
  "fromBytes [b0, b1, b2, b3, b4, b5, b6, b7, b8, b9, b10, b11] =
     Some (ObjectID b0 b1 b2 b3 b4 b5 b6 b7 b8 b9 b10 b11)"
| "fromBytes _ = None"

definition ObjectIDFromHex :: "string \<Rightarrow> ObjectID option" where
  "ObjectIDFromHex s =
     (if length s \<noteq> 24 then None
      else case hexDecode s of None \<Rightarrow> None | Some bs \<Rightarrow> fromBytes bs)"

subsection \<open>Tasks and stored documents\<close>

text \<open>
  A \<^verbatim>\<open>time.Time\<close> is modelled by its wall-clock reading, in nanoseconds since the Unix
  epoch. A BSON DateTime counts milliseconds: marshalling a time drops the sub-millisecond
  part (rounding down), unmarshalling gives the start of the millisecond.
\<close>

type_synonym Time = int

definition marshalTime :: "Time \<Rightarrow> int" where
  "marshalTime t = t div 1000000"

definition unmarshalTime :: "int \<Rightarrow> Time" where
  "unmarshalTime ms = ms * 1000000"

record Task =
  ID :: ObjectID
  Title :: string
  Description :: string
  Status :: string
  CreatedAt :: Time
  UpdatedAt :: Time

text \<open>
  A document of collection \<^verbatim>\<open>taskdb.tasks\<close>, with the keys of the \<^verbatim>\<open>bson\<close> tags of
  \<^verbatim>\<open>Task\<close>. Every stored document has an \<^verbatim>\<open>_id\<close>. The key \<^verbatim>\<open>description\<close> is
  tagged \<^verbatim>\<open>omitempty\<close>: it is absent (\<open>None\<close>) when the marshalled struct had an empty
  description. The collection holds documents of this shape only, the one the handlers
  write; a document of this shape always decodes into a \<^verbatim>\<open>Task\<close>.
\<close>

record Document =
  d_id :: ObjectID
  d_title :: string
  d_description :: "string option"
  d_status :: string
  d_created_at :: int
  d_updated_at :: int

type_synonym Collection = "Document list"

text \<open>Marshalling a \<^verbatim>\<open>Task\<close> under a given \<^verbatim>\<open>_id\<close>, and decoding a document.\<close>

definition marshalTask :: "ObjectID \<Rightarrow> Task \<Rightarrow> Document" where
  "marshalTask oid t =
     \<lparr> d_id = oid,
       d_title = Title t,
       d_description = (if Description t = [] then None else Some (Description t)),
       d_status = Status t,
       d_created_at = marshalTime (CreatedAt t),
       d_updated_at = marshalTime (UpdatedAt t) \<rparr>"

definition decodeTask :: "Document \<Rightarrow> Task" where
  "decodeTask d =
     \<lparr> ID = d_id d,
       Title = d_title d,
       Description = (case d_description d of None \<Rightarrow> [] | Some s \<Rightarrow> s),
       Status = d_status d,
       CreatedAt = unmarshalTime (d_created_at d),
       UpdatedAt = unmarshalTime (d_updated_at d) \<rparr>"

section \<open>The environment of a request\<close>

text \<open>
  What the world outside the handlers answers while one request is served:
  \<^item> \<open>NewObjectID\<close>: the result of \<^verbatim>\<open>primitive.NewObjectID()\<close>;
  \<^item> \<open>Now k\<close>: the result of the \<open>k\<close>-th call of \<^verbatim>\<open>time.Now()\<close> that the handler makes
    (counted from 0);
  \<^item> \<open>DriverObjectID\<close>: the \<^verbatim>\<open>_id\<close> the driver adds to an inserted document that has none;
  \<^item> \<open>ClientErr\<close>: the driver call of the request fails (the store is unreachable, the
    cursor or the command fails).
\<close>

record Env =
  NewObjectID :: ObjectID
  Now :: "nat \<Rightarrow> Time"
  DriverObjectID :: ObjectID
  ClientErr :: bool

datatype DriverError = ErrNoDocuments | ErrDuplicateKey | ErrClient

section \<open>The collection\<close>

text \<open>
  \<^verbatim>\<open>InsertOne\<close>: field \<^verbatim>\<open>ID\<close> is tagged \<^verbatim>\<open>_id,omitempty\<close>, so a zero identifier is left
  out of the marshalled document and the driver adds an \<^verbatim>\<open>_id\<close> of its own. The
  collection has the unique index on \<^verbatim>\<open>_id\<close>: a second document with a stored \<^verbatim>\<open>_id\<close>
  is refused.
\<close>

definition InsertOne :: "Env \<Rightarrow> Task \<Rightarrow> Collection \<Rightarrow> DriverError + (ObjectID \<times> Collection)" where
  "InsertOne e t coll =
     (let oid = (if ID t = NilObjectID then DriverObjectID e else ID t) in
      if ClientErr e then Inl ErrClient
      else if oid \<in> d_id ` set coll then Inl ErrDuplicateKey
      else Inr (oid, coll @ [marshalTask oid t]))"


text \<open>\<^verbatim>\<open>cursor.Decode\<close> of a document of this schema.\<close>

definition cursorDecode :: "Document \<Rightarrow> DriverError + Task" where
  "cursorDecode d = Inr (decodeTask d)"

text \<open>\<^verbatim>\<open>FindOne(\<dots>, bson.M{"_id": objectID}).Decode(&task)\<close>.\<close>

definition FindOne :: "Env \<Rightarrow> ObjectID \<Rightarrow> Collection \<Rightarrow> DriverError + Task" where
  "FindOne e oid coll =
     (if ClientErr e then Inl ErrClient
      else case find (\<lambda>d. d_id d = oid) coll of
             None \<Rightarrow> Inl ErrNoDocuments
           | Some d \<Rightarrow> cursorDecode d)"

text \<open>
  \<^verbatim>\<open>UpdateOne\<close> with filter \<^verbatim>\<open>{"_id": objectID}\<close> and a \<^verbatim>\<open>$set\<close> of the four keys
  \<^verbatim>\<open>title\<close>, \<^verbatim>\<open>description\<close>, \<^verbatim>\<open>status\<close>, \<^verbatim>\<open>updated_at\<close>. The values come from a
  \<^verbatim>\<open>bson.M\<close>, which has no \<^verbatim>\<open>omitempty\<close>: an empty description is stored as the empty
  string. The result is \<^verbatim>\<open>MatchedCount\<close> and the new collection.
\<close>

definition setFields :: "string \<Rightarrow> string \<Rightarrow> string \<Rightarrow> Time \<Rightarrow> Document \<Rightarrow> Document" where
  "setFields title description status updated_at d =
     d\<lparr> d_title := title,
        d_description := Some description,
        d_status := status,
        d_updated_at := marshalTime updated_at \<rparr>"

fun updateFirst :: "ObjectID \<Rightarrow> (Document \<Rightarrow> Document) \<Rightarrow> Collection \<Rightarrow> nat \<times> Collection" where
  "updateFirst oid f [] = (0, [])"
| "updateFirst oid f (d # ds) =
     (if d_id d = oid then (1, f d # ds)
      else (fst (updateFirst oid f ds), d # snd (updateFirst oid f ds)))"

definition UpdateOne ::
  "Env \<Rightarrow> ObjectID \<Rightarrow> (Document \<Rightarrow> Document) \<Rightarrow> Collection \<Rightarrow> DriverError + (nat \<times> Collection)" where
  "UpdateOne e oid f coll =
     (if ClientErr e then Inl ErrClient else Inr (updateFirst oid f coll))"

text \<open>\<^verbatim>\<open>DeleteOne\<close> with filter \<^verbatim>\<open>{"_id": objectID}\<close>: \<^verbatim>\<open>DeletedCount\<close> and the new collection.\<close>

fun deleteFirst :: "ObjectID \<Rightarrow> Collection \<Rightarrow> nat \<times> Collection" where
  "deleteFirst oid [] = (0, [])"
| "deleteFirst oid (d # ds) =
     (if d_id d = oid then (1, ds)
      else (fst (deleteFirst oid ds), d # snd (deleteFirst oid ds)))"

definition DeleteOne :: "Env \<Rightarrow> ObjectID \<Rightarrow> Collection \<Rightarrow> DriverError + (nat \<times> Collection)" where
  "DeleteOne e oid coll =
     (if ClientErr e then Inl ErrClient else Inr (deleteFirst oid coll))"

section \<open>Handlers\<close>

text \<open>
  A handler gets the environment of the request, the path parameter \<^verbatim>\<open>id\<close> where the
  route has one, the result of \<^verbatim>\<open>c.Bind\<close> where the handler binds (\<open>None\<close>: the body does
  not decode; \<open>Some t\<close>: the zero \<^verbatim>\<open>Task\<close> overlaid with the fields of the body), and the
  collection. It returns the response written by \<^verbatim>\<open>c.JSON\<close> and the collection afterwards.
\<close>

datatype Body =
  ErrorBody string
| MessageBody string
| TaskBody Task
| TasksBody "Task list"

record Response =
  status :: nat
  body :: Body

definition JSON :: "nat \<Rightarrow> Body \<Rightarrow> Response" where
  "JSON code b = \<lparr> status = code, body = b \<rparr>"

abbreviation StatusOK :: nat where "StatusOK \<equiv> 200"
abbreviation StatusCreated :: nat where "StatusCreated \<equiv> 201"
abbreviation StatusBadRequest :: nat where "StatusBadRequest \<equiv> 400"
abbreviation StatusNotFound :: nat where "StatusNotFound \<equiv> 404"
abbreviation StatusInternalServerError :: nat where "StatusInternalServerError \<equiv> 500"

definition createTask :: "Env \<Rightarrow> Task option \<Rightarrow> Collection \<Rightarrow> Response \<times> Collection" where
  "createTask e bound coll =
     (case bound of
        None \<Rightarrow> (JSON StatusBadRequest (ErrorBody ''Invalid input data''), coll)
      | Some task0 \<Rightarrow>
          if Title task0 = [] then
            (JSON StatusBadRequest (ErrorBody ''Title is required''), coll)
          else
            (let task1 = (if Status task0 = [] then task0\<lparr>Status := ''Pending''\<rparr> else task0);
                 task2 = task1\<lparr>ID := NewObjectID e\<rparr>;
                 task3 = task2\<lparr>CreatedAt := Now e 0\<rparr>;
                 task = task3\<lparr>UpdatedAt := Now e 1\<rparr>
             in case InsertOne e task coll of
                  Inl err \<Rightarrow>
                    (JSON StatusInternalServerError (ErrorBody ''Failed to create task''), coll)
                | Inr (_, coll') \<Rightarrow> (JSON StatusCreated (TaskBody task), coll')))"



definition getTaskByID :: "Env \<Rightarrow> string \<Rightarrow> Collection \<Rightarrow> Response \<times> Collection" where
  "getTaskByID e id' coll =
     (case ObjectIDFromHex id' of
        None \<Rightarrow> (JSON StatusBadRequest (ErrorBody ''Invalid ID''), coll)
      | Some objectID \<Rightarrow>
          (case FindOne e objectID coll of
             Inl err \<Rightarrow>
               if err = ErrNoDocuments then
                 (JSON StatusNotFound (ErrorBody ''Task not found''), coll)
               else (JSON StatusInternalServerError (ErrorBody ''Failed to fetch task''), coll)
           | Inr task \<Rightarrow> (JSON StatusOK (TaskBody task), coll)))"

definition updateTask :: "Env \<Rightarrow> string \<Rightarrow> Task option \<Rightarrow> Collection \<Rightarrow> Response \<times> Collection" where
  "updateTask e id' bound coll =
     (case ObjectIDFromHex id' of
        None \<Rightarrow> (JSON StatusBadRequest (ErrorBody ''Invalid ID''), coll)
      | Some objectID \<Rightarrow>
          (case bound of
             None \<Rightarrow> (JSON StatusBadRequest (ErrorBody ''Invalid input data''), coll)
           | Some update0 \<Rightarrow>
               (let update = update0\<lparr>UpdatedAt := Now e 0\<rparr>;
                    updateData = setFields (Title update) (Description update) (Status update)
                                   (UpdatedAt update)
                in case UpdateOne e objectID updateData coll of
                     Inl err \<Rightarrow>
                       (JSON StatusInternalServerError (ErrorBody ''Failed to update task''), coll)
                   | Inr (matchedCount, coll') \<Rightarrow>
                       if matchedCount = 0 then
                         (JSON StatusNotFound (ErrorBody ''Task not found''), coll')
                       else (JSON StatusOK (MessageBody ''Task updated successfully''), coll'))))"

definition deleteTask :: "Env \<Rightarrow> string \<Rightarrow> Collection \<Rightarrow> Response \<times> Collection" where
  "deleteTask e id' coll =
     (case ObjectIDFromHex id' of
        None \<Rightarrow> (JSON StatusBadRequest (ErrorBody ''Invalid ID''), coll)
      | Some objectID \<Rightarrow>
          (case DeleteOne e objectID coll of
             Inl err \<Rightarrow>
               (JSON StatusInternalServerError (ErrorBody ''Failed to delete task''), coll)
           | Inr (deletedCount, coll') \<Rightarrow>
               if deletedCount = 0 then
                 (JSON StatusNotFound (ErrorBody ''Task not found''), coll')
               else (JSON StatusOK (MessageBody ''Task deleted successfully''), coll')))"

text \<open>Creation requests served one after the other, each in its own environment.\<close>

fun createAll :: "(Env \<times> Task option) list \<Rightarrow> Collection \<Rightarrow> Response list \<times> Collection" where
  "createAll [] coll = ([], coll)"
| "createAll ((e, bound) # reqs) coll =
     (let (r, coll') = createTask e bound coll;
          (rs, coll'') = createAll reqs coll'
      in (r # rs, coll''))"

section \<open>Concrete requests\<close>

text \<open>
  Two identifiers, two environments, two payloads and a stored document, used to run the
  handlers. In \<open>envA\<close> the two clock readings of a creation lie one nanosecond apart, on
  the two sides of a millisecond boundary; \<open>envB\<close> reads the clock 0.3 ms later, within
  the millisecond of the second reading of \<open>envA\<close>. \<open>zeroTime\<close> is the zero
  \<^verbatim>\<open>time.Time\<close> (1 January of year 1), the value of a time field that the body does not
  mention. \<open>docA\<close> is the document that creating \<open>reqA\<close> in \<open>envA\<close> stores.
\<close>

definition oidA :: ObjectID where
  "oidA = ObjectID 0x50 0x7f 0x1f 0x77 0xbc 0xf8 0x6c 0xd7 0x99 0x43 0x90 0x11"

definition oidB :: ObjectID where
  "oidB = ObjectID 0x65 0x4a 0x00 0x01 0xaa 0xbb 0xcc 0xdd 0xee 0x00 0x00 0x02"

definition envA :: Env where
  "envA = \<lparr> NewObjectID = oidA,
            Now = (\<lambda>k. if k = 0 then 1700000000000999999 else 1700000000001000000),
            DriverObjectID = oidB,
            ClientErr = False \<rparr>"

definition envB :: Env where
  "envB = \<lparr> NewObjectID = oidB,
            Now = (\<lambda>k. 1700000000001300500 + int k),
            DriverObjectID = oidA,
            ClientErr = False \<rparr>"

definition zeroTime :: Time where
  "zeroTime = - 62135596800000000000"

definition reqA :: Task where
  "reqA = \<lparr> ID = NilObjectID, Title = ''Write report'', Description = [], Status = [],
            CreatedAt = zeroTime, UpdatedAt = zeroTime \<rparr>"

definition reqB :: Task where
  "reqB = \<lparr> ID = NilObjectID, Title = [], Description = [], Status = ''Done'',
            CreatedAt = zeroTime, UpdatedAt = zeroTime \<rparr>"

definition docA :: Document where
  "docA = \<lparr> d_id = oidA, d_title = ''Write report'', d_description = None,
            d_status = ''Pending'', d_created_at = 1700000000000, d_updated_at = 1700000000001 \<rparr>"

section \<open>Identifiers: encoding and decoding\<close>

lemma and_15_take_bit: "(v :: byte) AND 15 = take_bit 4 v"
proof -
  have "(15 :: byte) = mask 4" by (simp add: mask_eq_exp_minus_1)
  then show ?thesis by (simp add: take_bit_eq_mask)
qed

lemma low_nibble_less: "(v :: byte) AND 15 < 16"
proof -
  have "take_bit 4 (unat v) < 2 ^ 4"
    by (rule take_bit_nat_less_exp)
  then show ?thesis
    by (simp add: and_15_take_bit word_less_nat_alt unsigned_take_bit_eq)
qed

lemma high_nibble_less: "drop_bit 4 (v :: byte) < 16"
proof -
  have "unat v < 256" using unsigned_less [of v] by simp
  then have "unat v div 16 < 16" by arith
  then show ?thesis
    by (simp add: word_less_nat_alt drop_bit_eq_div unat_div)
qed

lemma nibble_cases:
  assumes "(n :: byte) < 16"
  shows "n \<in> {0, 1, 2, 3, 4, 5, 6, 7, 8, 9, 10, 11, 12, 13, 14, 15}"
proof -
  from assms have "unat n < 16" by (simp add: word_less_nat_alt)
  then have "unat n \<in> {0, 1, 2, 3, 4, 5, 6, 7, 8, 9, 10, 11, 12, 13, 14, 15}"
    by (simp; arith)
  then have "of_nat (unat n) \<in> (of_nat ` {0, 1, 2, 3, 4, 5, 6, 7, 8, 9, 10, 11, 12, 13, 14, 15} :: byte set)"
    by (rule imageI)
  then show ?thesis by simp
qed

lemma fromHexChar_hextable: "(n :: byte) < 16 \<Longrightarrow> fromHexChar (hextable ! unat n) = Some n"
  by (drule nibble_cases) (auto simp add: hextable_def fromHexChar_def)

lemma nibbles_join: "push_bit 4 (drop_bit 4 (v :: byte)) OR (v AND 15) = v"
  unfolding and_15_take_bit by (rule bit_word_eqI) (auto simp add: bit_simps)

lemma hexDecode_encodeByte:
  "hexDecode (encodeByte v @ cs) = map_option ((#) v) (hexDecode cs)"
  by (cases "hexDecode cs")
     (simp_all add: encodeByte_def fromHexChar_hextable high_nibble_less low_nibble_less
        nibbles_join)

lemma length_encodeByte: "length (encodeByte v) = 2"
  by (simp add: encodeByte_def)

lemma ObjectIDFromHex_Hex: "ObjectIDFromHex (Hex oid) = Some oid"
proof (cases oid)
  case (ObjectID b0 b1 b2 b3 b4 b5 b6 b7 b8 b9 b10 b11)
  have "hexDecode (Hex oid) = Some [b0, b1, b2, b3, b4, b5, b6, b7, b8, b9, b10, b11]"
    using hexDecode_encodeByte [of b11 "[]"]
    by (simp add: ObjectID hexDecode_encodeByte)
  moreover have "length (Hex oid) = 24"
    by (simp add: ObjectID length_encodeByte)
  ultimately show ?thesis
    by (simp add: ObjectIDFromHex_def ObjectID)
qed

section \<open>The collection: searching, updating, deleting\<close>

lemma find_id_None: "find (\<lambda>d. d_id d = oid) coll = None \<longleftrightarrow> oid \<notin> d_id ` set coll"
  by (auto simp add: find_None_iff)

lemma find_id_append:
  "oid \<notin> d_id ` set coll \<Longrightarrow> find (\<lambda>d. d_id d = oid) (coll @ ds) = find (\<lambda>d. d_id d = oid) ds"
  by (induction coll) auto

lemma find_id_split:
  "find (\<lambda>d. d_id d = oid) coll = Some d \<Longrightarrow>
     \<exists>pre post. coll = pre @ d # post \<and> oid \<notin> d_id ` set pre \<and> d_id d = oid"
proof (induction coll)
  case Nil
  then show ?case by simp
next
  case (Cons x xs)
  show ?case
  proof (cases "d_id x = oid")
    case True
    with Cons.prems have "x = d" by simp
    with True have "x # xs = [] @ d # xs \<and> oid \<notin> d_id ` set [] \<and> d_id d = oid" by simp
    then show ?thesis by blast
  next
    case False
    with Cons obtain pre post where "xs = pre @ d # post" "oid \<notin> d_id ` set pre" "d_id d = oid"
      by auto
    with False have "x # xs = (x # pre) @ d # post \<and> oid \<notin> d_id ` set (x # pre) \<and> d_id d = oid"
      by auto
    then show ?thesis by blast
  qed
qed

lemma updateFirst_split:
  "oid \<notin> d_id ` set pre \<Longrightarrow> d_id d = oid \<Longrightarrow>
     updateFirst oid f (pre @ d # post) = (1, pre @ f d # post)"
  by (induction pre) auto



lemma deleteFirst_removes:
  "distinct (map d_id coll) \<Longrightarrow> oid \<notin> d_id ` set (snd (deleteFirst oid coll))"
  by (induction coll) auto

lemma deleteFirst_subset: "set (snd (deleteFirst oid coll)) \<subseteq> set coll"
  by (induction coll) auto

lemma deleteFirst_distinct:
  "distinct (map d_id coll) \<Longrightarrow> distinct (map d_id (snd (deleteFirst oid coll)))"
proof (induction coll)
  case Nil
  then show ?case by simp
next
  case (Cons x xs)
  have "d_id ` set (snd (deleteFirst oid xs)) \<subseteq> d_id ` set xs"
    using deleteFirst_subset [of oid xs] by blast
  with Cons show ?case by auto
qed

lemma updateFirst_ids:
  "(\<And>d. d_id (f d) = d_id d) \<Longrightarrow> map d_id (snd (updateFirst oid f coll)) = map d_id coll"
  by (induction coll) auto


lemma d_id_setFields: "d_id (setFields a b c t d) = d_id d"
  by (simp add: setFields_def)

text \<open>What a creation request answered 201 has done.\<close>

lemma createTask_Created:
  assumes "createTask e (Some t) coll = (r, coll')" and "status r = StatusCreated"
  shows "Title t \<noteq> [] \<and> \<not> ClientErr e \<and>
         r = JSON StatusCreated (TaskBody
               \<lparr> ID = NewObjectID e, Title = Title t, Description = Description t,
                 Status = (if Status t = [] then ''Pending'' else Status t),
                 CreatedAt = Now e 0, UpdatedAt = Now e 1 \<rparr>) \<and>
         (if NewObjectID e = NilObjectID then DriverObjectID e else NewObjectID e) \<notin> d_id ` set coll \<and>
         coll' = coll @
           [\<lparr> d_id = (if NewObjectID e = NilObjectID then DriverObjectID e else NewObjectID e),
              d_title = Title t,
              d_description = (if Description t = [] then None else Some (Description t)),
              d_status = (if Status t = [] then ''Pending'' else Status t),
              d_created_at = marshalTime (Now e 0),
              d_updated_at = marshalTime (Now e 1) \<rparr>]"
  using assms
  by (cases t)
     (auto simp add: createTask_def InsertOne_def JSON_def marshalTask_def Let_def
        split: if_splits)


lemma createTask_distinct:
  "distinct (map d_id coll) \<Longrightarrow> distinct (map d_id (snd (createTask e bound coll)))"
  by (auto simp add: createTask_def InsertOne_def JSON_def Let_def marshalTask_def
        split: option.splits)


lemma less_div_iff:
  fixes a n k :: int
  assumes "0 < k"
  shows "a < n div k \<longleftrightarrow> (a + 1) * k \<le> n"
proof
  assume "a < n div k"
  then have "a + 1 \<le> n div k" by simp
  then have "(a + 1) * k \<le> (n div k) * k"
    using assms by (simp add: mult_right_mono)
  also have "(n div k) * k \<le> n"
  proof -
    have "n div k * k + n mod k = n" by (rule div_mult_mod_eq)
    moreover have "0 \<le> n mod k" using assms by simp
    ultimately show ?thesis by linarith
  qed
  finally show "(a + 1) * k \<le> n" .
next
  assume "(a + 1) * k \<le> n"
  then have "(a + 1) * k div k \<le> n div k"
    using assms by (rule zdiv_mono1)
  then have "a + 1 \<le> n div k" using assms by simp
  then show "a < n div k" by simp
qed

lemma less_marshalTime_iff: "ms < marshalTime t \<longleftrightarrow> (ms + 1) * 1000000 \<le> t"
  unfolding marshalTime_def by (rule less_div_iff) simp

text \<open>
  The unique index on \<^verbatim>\<open>_id\<close> is an invariant of the collection: the handlers that write
  keep the identifiers of the stored documents distinct.
\<close>

lemma updateTask_ids:
  "map d_id (snd (updateTask e s bound coll)) = map d_id coll"
  by (simp add: updateTask_def UpdateOne_def Let_def updateFirst_ids d_id_setFields
        case_prod_beta split: option.splits)

lemma updateTask_distinct:
  "distinct (map d_id coll) \<Longrightarrow> distinct (map d_id (snd (updateTask e s bound coll)))"
  by (simp add: updateTask_ids)

lemma deleteTask_distinct:
  "distinct (map d_id coll) \<Longrightarrow> distinct (map d_id (snd (deleteTask e s coll)))"
  by (simp add: deleteTask_def DeleteOne_def deleteFirst_distinct case_prod_beta
        split: option.splits)

lemma createAll_distinct:
  "distinct (map d_id coll) \<Longrightarrow> distinct (map d_id (snd (createAll reqs coll)))"
proof (induction reqs arbitrary: coll)
  case Nil
  then show ?case by simp
next
  case (Cons q reqs)
  obtain e bound where q: "q = (e, bound)" by (cases q)
  from Cons.prems have "distinct (map d_id (snd (createTask e bound coll)))"
    by (rule createTask_distinct)
  then have "distinct (map d_id (snd (createAll reqs (snd (createTask e bound coll)))))"
    by (rule Cons.IH)
  then show ?case by (simp add: q case_prod_beta)
qed

section \<open>The specification's claims\<close>

text \<open>
  Claim C1. For every existing task (the first stored document \<open>d\<close> whose \<^verbatim>\<open>_id\<close> is the
  identifier of the request) and every decoded update payload \<open>u\<close>, the update answers 200
  and replaces \<open>d\<close>, in place, by a document \<open>d'\<close> whose \<^verbatim>\<open>title\<close>, \<^verbatim>\<open>description\<close> and
  \<^verbatim>\<open>status\<close> are those of the payload, empty or not, whose \<^verbatim>\<open>updated_at\<close> is the clock
  reading of the handler, and whose \<^verbatim>\<open>_id\<close> and \<^verbatim>\<open>created_at\<close> are those of \<open>d\<close>. The
  documents before and after \<open>d\<close> stay as they are. The driver call is taken not to fail.
\<close>

theorem updateTask_overwrites:
  assumes "ObjectIDFromHex s = Some oid"
    and "find (\<lambda>x. d_id x = oid) coll = Some d"
    and "\<not> ClientErr e"
  shows "\<exists>pre post d'.
           coll = pre @ d # post \<and> oid \<notin> d_id ` set pre \<and>
           updateTask e s (Some u) coll =
             (JSON StatusOK (MessageBody ''Task updated successfully''), pre @ d' # post) \<and>
           d_title d' = Title u \<and>
           d_description d' = Some (Description u) \<and>
           d_status d' = Status u \<and>
           d_updated_at d' = marshalTime (Now e 0) \<and>
           d_id d' = d_id d \<and>
           d_created_at d' = d_created_at d"
proof -
  from find_id_split [OF assms(2)] obtain pre post
    where split: "coll = pre @ d # post" "oid \<notin> d_id ` set pre" "d_id d = oid"
    by blast
  let ?f = "setFields (Title u) (Description u) (Status u) (Now e 0)"
  have "updateFirst oid ?f coll = (1, pre @ ?f d # post)"
    using split by (simp add: updateFirst_split)
  then have "updateTask e s (Some u) coll =
      (JSON StatusOK (MessageBody ''Task updated successfully''), pre @ ?f d # post)"
    using assms(1,3) by (simp add: updateTask_def UpdateOne_def Let_def)
  with split show ?thesis
    by (intro exI [of _ pre] exI [of _ post] exI [of _ "?f d"]) (simp add: setFields_def)
qed

theorem updateTask_overwrites_witness:
  "ObjectIDFromHex ''507f1f77bcf86cd799439011'' = Some oidA \<and>
   find (\<lambda>x. d_id x = oidA) [docA] = Some docA \<and>
   \<not> ClientErr envB \<and>
   (\<exists>pre post d'.
      [docA] = pre @ docA # post \<and> oidA \<notin> d_id ` set pre \<and>
      updateTask envB ''507f1f77bcf86cd799439011'' (Some reqB) [docA] =
        (JSON StatusOK (MessageBody ''Task updated successfully''), pre @ d' # post) \<and>
      d_title d' = Title reqB \<and>
      d_description d' = Some (Description reqB) \<and>
      d_status d' = Status reqB \<and>
      d_updated_at d' = marshalTime (Now envB 0) \<and>
      d_id d' = d_id docA \<and>
      d_created_at d' = d_created_at docA)"
proof -
  have h1: "ObjectIDFromHex ''507f1f77bcf86cd799439011'' = Some oidA"
    by (simp add: ObjectIDFromHex_def fromHexChar_def oidA_def)
  have h2: "find (\<lambda>x. d_id x = oidA) [docA] = Some docA"
    by (simp add: docA_def)
  have h3: "\<not> ClientErr envB"
    by (simp add: envB_def)
  show ?thesis
    using updateTask_overwrites [OF h1 h2 h3, of reqB] h1 h2 h3 by simp
qed

text \<open>
  Claim C2, amended. For every creation request answered 201, when the generated identifier
  is not the zero identifier, fetching by the hexadecimal form of the returned \<^verbatim>\<open>id\<close>
  answers 200 with a record that has the identifier, title, description and status of the
  created task. Its \<^verbatim>\<open>created_at\<close> and \<^verbatim>\<open>updated_at\<close> are the first and the second clock
  reading of the creation, each cut to whole milliseconds; they are equal exactly when the
  two readings lie in the same millisecond. The driver call of the fetch is taken not to
  fail.
\<close>

theorem create_then_get:
  assumes "createTask e (Some t) coll = (r, coll')"
    and "status r = StatusCreated"
    and "NewObjectID e \<noteq> NilObjectID"
    and "\<not> ClientErr e'"
  shows "\<exists>created fetched.
           body r = TaskBody created \<and>
           getTaskByID e' (Hex (ID created)) coll' = (JSON StatusOK (TaskBody fetched), coll') \<and>
           ID fetched = ID created \<and>
           Title fetched = Title created \<and>
           Description fetched = Description created \<and>
           Status fetched = Status created \<and>
           CreatedAt fetched = unmarshalTime (marshalTime (Now e 0)) \<and>
           UpdatedAt fetched = unmarshalTime (marshalTime (Now e 1)) \<and>
           (CreatedAt fetched = UpdatedAt fetched \<longleftrightarrow>
              Now e 0 div 1000000 = Now e 1 div 1000000)"
proof -
  let ?created = "\<lparr> ID = NewObjectID e, Title = Title t, Description = Description t,
                    Status = (if Status t = [] then ''Pending'' else Status t),
                    CreatedAt = Now e 0, UpdatedAt = Now e 1 \<rparr>"
  let ?d = "\<lparr> d_id = NewObjectID e,
              d_title = Title t,
              d_description = (if Description t = [] then None else Some (Description t)),
              d_status = (if Status t = [] then ''Pending'' else Status t),
              d_created_at = marshalTime (Now e 0),
              d_updated_at = marshalTime (Now e 1) \<rparr>"
  from createTask_Created [OF assms(1,2)] assms(3)
  have r: "body r = TaskBody ?created"
    and fresh: "NewObjectID e \<notin> d_id ` set coll"
    and coll': "coll' = coll @ [?d]"
    by (simp_all add: JSON_def)
  have "find (\<lambda>x. d_id x = NewObjectID e) coll' = Some ?d"
    using fresh by (simp add: coll' find_id_append)
  then have get: "getTaskByID e' (Hex (ID ?created)) coll' =
      (JSON StatusOK (TaskBody (decodeTask ?d)), coll')"
    using assms(4) by (simp add: getTaskByID_def ObjectIDFromHex_Hex FindOne_def cursorDecode_def)
  show ?thesis
    using r get
    by (intro exI [of _ ?created] exI [of _ "decodeTask ?d"])
       (simp add: decodeTask_def unmarshalTime_def marshalTime_def)
qed

theorem create_then_get_witness:
  "createTask envB (Some reqA) [] =
     (JSON StatusCreated (TaskBody
        \<lparr> ID = oidB, Title = ''Write report'', Description = [], Status = ''Pending'',
          CreatedAt = 1700000000001300500, UpdatedAt = 1700000000001300501 \<rparr>),
      [\<lparr> d_id = oidB, d_title = ''Write report'', d_description = None,
         d_status = ''Pending'', d_created_at = 1700000000001,
         d_updated_at = 1700000000001 \<rparr>]) \<and>
   NewObjectID envB \<noteq> NilObjectID \<and>
   \<not> ClientErr envA \<and>
   (\<exists>fetched.
      getTaskByID envA (Hex oidB)
        [\<lparr> d_id = oidB, d_title = ''Write report'', d_description = None,
           d_status = ''Pending'', d_created_at = 1700000000001,
           d_updated_at = 1700000000001 \<rparr>] =
        (JSON StatusOK (TaskBody fetched),
         [\<lparr> d_id = oidB, d_title = ''Write report'', d_description = None,
            d_status = ''Pending'', d_created_at = 1700000000001,
            d_updated_at = 1700000000001 \<rparr>]) \<and>
      ID fetched = oidB \<and>
      Title fetched = ''Write report'' \<and>
      Description fetched = [] \<and>
      Status fetched = ''Pending'' \<and>
      CreatedAt fetched = 1700000000001000000 \<and>
      UpdatedAt fetched = 1700000000001000000)"
proof -
  have h1: "createTask envB (Some reqA) [] =
     (JSON StatusCreated (TaskBody
        \<lparr> ID = oidB, Title = ''Write report'', Description = [], Status = ''Pending'',
          CreatedAt = 1700000000001300500, UpdatedAt = 1700000000001300501 \<rparr>),
      [\<lparr> d_id = oidB, d_title = ''Write report'', d_description = None,
         d_status = ''Pending'', d_created_at = 1700000000001,
         d_updated_at = 1700000000001 \<rparr>])"
    by (simp add: createTask_def envB_def reqA_def InsertOne_def marshalTask_def
          marshalTime_def oidB_def NilObjectID_def Let_def)
  have h2: "status (JSON StatusCreated (TaskBody
        \<lparr> ID = oidB, Title = ''Write report'', Description = [], Status = ''Pending'',
          CreatedAt = 1700000000001300500, UpdatedAt = 1700000000001300501 \<rparr>)) = StatusCreated"
    by (simp add: JSON_def)
  have h3: "NewObjectID envB \<noteq> NilObjectID"
    by (simp add: envB_def oidB_def NilObjectID_def)
  have h4: "\<not> ClientErr envA"
    by (simp add: envA_def)
  have n: "Now envB 0 = 1700000000001300500" "Now envB (Suc 0) = 1700000000001300501"
    by (simp_all add: envB_def)
  show ?thesis
    using create_then_get [OF h1 h2 h3 h4] h1 h3 h4
    by (auto simp add: JSON_def n unmarshalTime_def marshalTime_def)
qed

text \<open>
  The two timestamps can differ: \<^verbatim>\<open>createTask\<close> reads the clock twice. In \<open>envA\<close> the
  first reading is the last nanosecond of a millisecond and the second the first nanosecond
  of the next one; the fetched record has \<^verbatim>\<open>created_at\<close> one millisecond before
  \<^verbatim>\<open>updated_at\<close>.
\<close>

theorem create_then_get_counterexample:
  "createTask envA (Some reqA) [] =
     (JSON StatusCreated (TaskBody
        \<lparr> ID = oidA, Title = ''Write report'', Description = [], Status = ''Pending'',
          CreatedAt = 1700000000000999999, UpdatedAt = 1700000000001000000 \<rparr>), [docA]) \<and>
   Hex oidA = ''507f1f77bcf86cd799439011'' \<and>
   getTaskByID envB ''507f1f77bcf86cd799439011'' [docA] =
     (JSON StatusOK (TaskBody
        \<lparr> ID = oidA, Title = ''Write report'', Description = [], Status = ''Pending'',
          CreatedAt = 1700000000000000000, UpdatedAt = 1700000000001000000 \<rparr>), [docA]) \<and>
   CreatedAt \<lparr> ID = oidA, Title = ''Write report'', Description = [], Status = ''Pending'',
          CreatedAt = 1700000000000000000, UpdatedAt = 1700000000001000000 \<rparr> \<noteq>
   UpdatedAt \<lparr> ID = oidA, Title = ''Write report'', Description = [], Status = ''Pending'',
          CreatedAt = 1700000000000000000, UpdatedAt = 1700000000001000000 \<rparr>"
proof -
  have "createTask envA (Some reqA) [] =
     (JSON StatusCreated (TaskBody
        \<lparr> ID = oidA, Title = ''Write report'', Description = [], Status = ''Pending'',
          CreatedAt = 1700000000000999999, UpdatedAt = 1700000000001000000 \<rparr>), [docA])"
    by (simp add: createTask_def envA_def reqA_def InsertOne_def marshalTask_def
          marshalTime_def docA_def oidA_def NilObjectID_def Let_def)
  moreover have "Hex oidA = ''507f1f77bcf86cd799439011''"
    by (simp add: oidA_def encodeByte_def hextable_def)
  moreover have "ObjectIDFromHex ''507f1f77bcf86cd799439011'' = Some oidA"
    by (simp add: ObjectIDFromHex_def fromHexChar_def oidA_def)
  then have "getTaskByID envB ''507f1f77bcf86cd799439011'' [docA] =
     (JSON StatusOK (TaskBody
        \<lparr> ID = oidA, Title = ''Write report'', Description = [], Status = ''Pending'',
          CreatedAt = 1700000000000000000, UpdatedAt = 1700000000001000000 \<rparr>), [docA])"
    by (simp add: getTaskByID_def FindOne_def envB_def docA_def cursorDecode_def
          decodeTask_def unmarshalTime_def)
  ultimately show ?thesis by simp
qed




text \<open>
  Claim C4. For every creation request whose decoded title is empty (given as empty or left
  out), the creation answers 400 and the collection is what it was: nothing is stored.
\<close>

theorem createTask_missing_title:
  assumes "Title t = []"
  shows "status (fst (createTask e (Some t) coll)) = StatusBadRequest \<and>
         snd (createTask e (Some t) coll) = coll"
  using assms by (simp add: createTask_def JSON_def)

theorem createTask_missing_title_witness:
  "Title reqB = [] \<and>
   status (fst (createTask envA (Some reqB) [docA])) = StatusBadRequest \<and>
   snd (createTask envA (Some reqB) [docA]) = [docA]"
proof -
  have h: "Title reqB = []" by (simp add: reqB_def)
  show ?thesis using createTask_missing_title [OF h, of envA "[docA]"] h by simp
qed





text \<open>
  Claim C7. For every identifier string, if the deletion is answered 200 then a fetch of the
  same identifier from the collection it leaves is answered 404. The collection has
  distinct \<^verbatim>\<open>_id\<close>s (its unique index), and the driver call of the fetch is taken not to
  fail.
\<close>

theorem delete_then_get:
  assumes "distinct (map d_id coll)"
    and "deleteTask e s coll = (r, coll')"
    and "status r = StatusOK"
    and "\<not> ClientErr e'"
  shows "getTaskByID e' s coll' = (JSON StatusNotFound (ErrorBody ''Task not found''), coll')"
proof (cases "ObjectIDFromHex s")
  case None
  with assms(2,3) show ?thesis
    by (auto simp add: deleteTask_def JSON_def)
next
  case (Some oid)
  with assms(2,3) have "coll' = snd (deleteFirst oid coll)"
    by (auto simp add: deleteTask_def DeleteOne_def JSON_def split: if_splits prod.splits)
  with assms(1) have "oid \<notin> d_id ` set coll'"
    by (simp add: deleteFirst_removes)
  then have "find (\<lambda>x. d_id x = oid) coll' = None"
    by (simp add: find_id_None)
  with Some assms(4) show ?thesis
    by (simp add: getTaskByID_def FindOne_def)
qed

theorem delete_then_get_witness:
  "distinct (map d_id [docA]) \<and>
   deleteTask envB ''507f1f77bcf86cd799439011'' [docA] =
     (JSON StatusOK (MessageBody ''Task deleted successfully''), []) \<and>
   status (JSON StatusOK (MessageBody ''Task deleted successfully'')) = StatusOK \<and>
   \<not> ClientErr envA \<and>
   getTaskByID envA ''507f1f77bcf86cd799439011'' [] =
     (JSON StatusNotFound (ErrorBody ''Task not found''), [])"
proof -
  have h1: "distinct (map d_id [docA])" by simp
  have i: "ObjectIDFromHex ''507f1f77bcf86cd799439011'' = Some oidA"
    by (simp add: ObjectIDFromHex_def fromHexChar_def oidA_def)
  have h2: "deleteTask envB ''507f1f77bcf86cd799439011'' [docA] =
     (JSON StatusOK (MessageBody ''Task deleted successfully''), [])"
    by (simp add: deleteTask_def i DeleteOne_def envB_def docA_def)
  have h3: "status (JSON StatusOK (MessageBody ''Task deleted successfully'')) = StatusOK"
    by (simp add: JSON_def)
  have h4: "\<not> ClientErr envA" by (simp add: envA_def)
  show ?thesis
    using delete_then_get [OF h1 h2 h3 h4] h1 h2 h3 h4 by simp
qed

text \<open>
  Claim C8, amended. For every existing task, an update answered 200 stores as
  \<^verbatim>\<open>updated_at\<close> the clock reading of the handler cut to whole milliseconds. The stored
  value is strictly greater than the one before exactly when the reading is at or beyond
  the start of the millisecond that follows the earlier value.
\<close>

theorem update_refreshes:
  assumes "ObjectIDFromHex s = Some oid"
    and "find (\<lambda>x. d_id x = oid) coll = Some d"
    and "updateTask e s bound coll = (r, coll')"
    and "status r = StatusOK"
  shows "\<exists>d'. find (\<lambda>x. d_id x = oid) coll' = Some d' \<and>
              d_updated_at d' = marshalTime (Now e 0) \<and>
              (d_updated_at d < d_updated_at d' \<longleftrightarrow>
                 (d_updated_at d + 1) * 1000000 \<le> Now e 0)"
proof -
  from find_id_split [OF assms(2)] obtain pre post
    where split: "coll = pre @ d # post" "oid \<notin> d_id ` set pre" "d_id d = oid"
    by blast
  from assms(1,3,4) obtain u where u: "bound = Some u" and ok: "\<not> ClientErr e"
    by (cases bound) (auto simp add: updateTask_def UpdateOne_def JSON_def Let_def split: if_splits)
  let ?f = "setFields (Title u) (Description u) (Status u) (Now e 0)"
  have "updateFirst oid ?f coll = (1, pre @ ?f d # post)"
    using split by (simp add: updateFirst_split)
  with assms(1,3) u ok have coll': "coll' = pre @ ?f d # post"
    by (simp add: updateTask_def UpdateOne_def Let_def)
  have "find (\<lambda>x. d_id x = oid) coll' = Some (?f d)"
    using split by (simp add: coll' find_id_append d_id_setFields)
  moreover have "d_updated_at (?f d) = marshalTime (Now e 0)"
    by (simp add: setFields_def)
  moreover have "d_updated_at d < marshalTime (Now e 0) \<longleftrightarrow>
      (d_updated_at d + 1) * 1000000 \<le> Now e 0"
    by (rule less_marshalTime_iff)
  ultimately show ?thesis by simp
qed

theorem update_refreshes_witness:
  "ObjectIDFromHex ''507f1f77bcf86cd799439011'' = Some oidA \<and>
   find (\<lambda>x. d_id x = oidA) [docA] = Some docA \<and>
   updateTask envB ''507f1f77bcf86cd799439011'' (Some reqB) [docA] =
     (JSON StatusOK (MessageBody ''Task updated successfully''),
      [\<lparr> d_id = oidA, d_title = [], d_description = Some [], d_status = ''Done'',
         d_created_at = 1700000000000, d_updated_at = 1700000000001 \<rparr>]) \<and>
   status (JSON StatusOK (MessageBody ''Task updated successfully'')) = StatusOK \<and>
   (\<exists>d'. find (\<lambda>x. d_id x = oidA)
           [\<lparr> d_id = oidA, d_title = [], d_description = Some [], d_status = ''Done'',
              d_created_at = 1700000000000, d_updated_at = 1700000000001 \<rparr>] = Some d' \<and>
         d_updated_at d' = marshalTime (Now envB 0) \<and>
         (d_updated_at docA < d_updated_at d' \<longleftrightarrow>
            (d_updated_at docA + 1) * 1000000 \<le> Now envB 0))"
proof -
  have h1: "ObjectIDFromHex ''507f1f77bcf86cd799439011'' = Some oidA"
    by (simp add: ObjectIDFromHex_def fromHexChar_def oidA_def)
  have h2: "find (\<lambda>x. d_id x = oidA) [docA] = Some docA"
    by (simp add: docA_def)
  have h3: "updateTask envB ''507f1f77bcf86cd799439011'' (Some reqB) [docA] =
     (JSON StatusOK (MessageBody ''Task updated successfully''),
      [\<lparr> d_id = oidA, d_title = [], d_description = Some [], d_status = ''Done'',
         d_created_at = 1700000000000, d_updated_at = 1700000000001 \<rparr>])"
    by (simp add: updateTask_def h1 UpdateOne_def envB_def docA_def setFields_def
          marshalTime_def reqB_def Let_def)
  have h4: "status (JSON StatusOK (MessageBody ''Task updated successfully'')) = StatusOK"
    by (simp add: JSON_def)
  show ?thesis
    using update_refreshes [OF h1 h2 h3 h4] h1 h2 h3 h4 by simp
qed

text \<open>
  A task created in \<open>envA\<close> and updated in \<open>envB\<close>, 0.3 ms later and within the same
  millisecond, keeps the \<^verbatim>\<open>updated_at\<close> it had.
\<close>

theorem update_refreshes_counterexample:
  "createTask envA (Some reqA) [] =
     (JSON StatusCreated (TaskBody
        \<lparr> ID = oidA, Title = ''Write report'', Description = [], Status = ''Pending'',
          CreatedAt = 1700000000000999999, UpdatedAt = 1700000000001000000 \<rparr>), [docA]) \<and>
   updateTask envB (Hex oidA) (Some reqB) [docA] =
     (JSON StatusOK (MessageBody ''Task updated successfully''),
      [\<lparr> d_id = oidA, d_title = [], d_description = Some [], d_status = ''Done'',
         d_created_at = 1700000000000, d_updated_at = 1700000000001 \<rparr>]) \<and>
   \<not> d_updated_at docA <
       d_updated_at \<lparr> d_id = oidA, d_title = [], d_description = Some [], d_status = ''Done'',
         d_created_at = 1700000000000, d_updated_at = 1700000000001 \<rparr> \<and>
   Now envA 1 < Now envB 0"
proof -
  have "createTask envA (Some reqA) [] =
     (JSON StatusCreated (TaskBody
        \<lparr> ID = oidA, Title = ''Write report'', Description = [], Status = ''Pending'',
          CreatedAt = 1700000000000999999, UpdatedAt = 1700000000001000000 \<rparr>), [docA])"
    by (simp add: createTask_def envA_def reqA_def InsertOne_def marshalTask_def
          marshalTime_def docA_def oidA_def NilObjectID_def Let_def)
  moreover have "ObjectIDFromHex (Hex oidA) = Some oidA"
    by (rule ObjectIDFromHex_Hex)
  then have "updateTask envB (Hex oidA) (Some reqB) [docA] =
     (JSON StatusOK (MessageBody ''Task updated successfully''),
      [\<lparr> d_id = oidA, d_title = [], d_description = Some [], d_status = ''Done'',
         d_created_at = 1700000000000, d_updated_at = 1700000000001 \<rparr>])"
    by (simp add: updateTask_def UpdateOne_def envB_def docA_def setFields_def
          marshalTime_def reqB_def Let_def)
  moreover have "d_updated_at docA = 1700000000001" "Now envA 1 < Now envB 0"
    by (simp_all add: docA_def envA_def envB_def)
  ultimately show ?thesis by simp
qed

text \<open>
  Claim C9. For every creation request answered 201, the values the payload carries for
  \<^verbatim>\<open>id\<close>, \<^verbatim>\<open>created_at\<close> and \<^verbatim>\<open>updated_at\<close> have no effect: any other values give the same
  response and the same collection. The returned task has the generated identifier and
  the two clock readings of the handler; the stored document has an \<^verbatim>\<open>_id\<close> generated
  by the service that no document had before, and the two readings in milliseconds.
\<close>

theorem createTask_assigns_id_and_times:
  assumes "createTask e (Some t) coll = (r, coll')" and "status r = StatusCreated"
  shows "createTask e (Some (t\<lparr>ID := i, CreatedAt := a, UpdatedAt := b\<rparr>)) coll = (r, coll') \<and>
         (\<exists>created d.
            body r = TaskBody created \<and> coll' = coll @ [d] \<and>
            ID created = NewObjectID e \<and>
            CreatedAt created = Now e 0 \<and>
            UpdatedAt created = Now e 1 \<and>
            d_id d = (if NewObjectID e = NilObjectID then DriverObjectID e else NewObjectID e) \<and>
            d_id d \<notin> d_id ` set coll \<and>
            d_created_at d = marshalTime (Now e 0) \<and>
            d_updated_at d = marshalTime (Now e 1))"
proof -
  have "createTask e (Some (t\<lparr>ID := i, CreatedAt := a, UpdatedAt := b\<rparr>)) coll =
        createTask e (Some t) coll"
    by (cases t) (simp add: createTask_def Let_def split: sum.splits)
  with assms(1) have "createTask e (Some (t\<lparr>ID := i, CreatedAt := a, UpdatedAt := b\<rparr>)) coll = (r, coll')"
    by simp
  moreover from createTask_Created [OF assms]
  have "\<exists>created d.
            body r = TaskBody created \<and> coll' = coll @ [d] \<and>
            ID created = NewObjectID e \<and>
            CreatedAt created = Now e 0 \<and>
            UpdatedAt created = Now e 1 \<and>
            d_id d = (if NewObjectID e = NilObjectID then DriverObjectID e else NewObjectID e) \<and>
            d_id d \<notin> d_id ` set coll \<and>
            d_created_at d = marshalTime (Now e 0) \<and>
            d_updated_at d = marshalTime (Now e 1)"
    by (simp add: JSON_def)
  ultimately show ?thesis by blast
qed

theorem createTask_assigns_id_and_times_witness:
  "createTask envA (Some reqA) [] =
     (JSON StatusCreated (TaskBody
        \<lparr> ID = oidA, Title = ''Write report'', Description = [], Status = ''Pending'',
          CreatedAt = 1700000000000999999, UpdatedAt = 1700000000001000000 \<rparr>), [docA]) \<and>
   status (JSON StatusCreated (TaskBody
        \<lparr> ID = oidA, Title = ''Write report'', Description = [], Status = ''Pending'',
          CreatedAt = 1700000000000999999, UpdatedAt = 1700000000001000000 \<rparr>)) = StatusCreated \<and>
   createTask envA (Some (reqA\<lparr>ID := oidB, CreatedAt := 5, UpdatedAt := 7\<rparr>)) [] =
     (JSON StatusCreated (TaskBody
        \<lparr> ID = oidA, Title = ''Write report'', Description = [], Status = ''Pending'',
          CreatedAt = 1700000000000999999, UpdatedAt = 1700000000001000000 \<rparr>), [docA]) \<and>
   d_id docA = NewObjectID envA \<and>
   d_created_at docA = marshalTime (Now envA 0) \<and>
   d_updated_at docA = marshalTime (Now envA 1)"
proof -
  have h1: "createTask envA (Some reqA) [] =
     (JSON StatusCreated (TaskBody
        \<lparr> ID = oidA, Title = ''Write report'', Description = [], Status = ''Pending'',
          CreatedAt = 1700000000000999999, UpdatedAt = 1700000000001000000 \<rparr>), [docA])"
    by (simp add: createTask_def envA_def reqA_def InsertOne_def marshalTask_def
          marshalTime_def docA_def oidA_def NilObjectID_def Let_def)
  have h2: "status (JSON StatusCreated (TaskBody
        \<lparr> ID = oidA, Title = ''Write report'', Description = [], Status = ''Pending'',
          CreatedAt = 1700000000000999999, UpdatedAt = 1700000000001000000 \<rparr>)) = StatusCreated"
    by (simp add: JSON_def)
  have h3: "NewObjectID envA \<noteq> NilObjectID"
    by (simp add: envA_def oidA_def NilObjectID_def)
  show ?thesis
    using createTask_assigns_id_and_times [OF h1 h2, where i = oidB and a = 5 and b = 7] h1 h2 h3 by auto
qed

text \<open>
  Claim C10. For every existing task, an update with the identifier of the task and a
  decoded payload whose title is empty is answered 200, and the document of the task
  afterwards has the empty title: the update does not check the title. The driver call is
  taken not to fail.
\<close>

theorem updateTask_empty_title:
  assumes "ObjectIDFromHex s = Some oid"
    and "find (\<lambda>x. d_id x = oid) coll = Some d"
    and "Title u = []"
    and "\<not> ClientErr e"
  shows "status (fst (updateTask e s (Some u) coll)) = StatusOK \<and>
         (\<exists>d'. find (\<lambda>x. d_id x = oid) (snd (updateTask e s (Some u) coll)) = Some d' \<and>
               d_title d' = [])"
proof -
  from find_id_split [OF assms(2)] obtain pre post
    where split: "coll = pre @ d # post" "oid \<notin> d_id ` set pre" "d_id d = oid"
    by blast
  let ?f = "setFields (Title u) (Description u) (Status u) (Now e 0)"
  have "updateFirst oid ?f coll = (1, pre @ ?f d # post)"
    using split by (simp add: updateFirst_split)
  then have upd: "updateTask e s (Some u) coll =
      (JSON StatusOK (MessageBody ''Task updated successfully''), pre @ ?f d # post)"
    using assms(1,4) by (simp add: updateTask_def UpdateOne_def Let_def)
  have "find (\<lambda>x. d_id x = oid) (pre @ ?f d # post) = Some (?f d)"
    using split by (simp add: find_id_append d_id_setFields)
  moreover have "d_title (?f d) = []"
    using assms(3) by (simp add: setFields_def)
  ultimately show ?thesis
    by (simp add: upd JSON_def)
qed

theorem updateTask_empty_title_witness:
  "ObjectIDFromHex ''507f1f77bcf86cd799439011'' = Some oidA \<and>
   find (\<lambda>x. d_id x = oidA) [docA] = Some docA \<and>
   Title reqB = [] \<and>
   \<not> ClientErr envB \<and>
   status (fst (updateTask envB ''507f1f77bcf86cd799439011'' (Some reqB) [docA])) = StatusOK \<and>
   (\<exists>d'. find (\<lambda>x. d_id x = oidA)
           (snd (updateTask envB ''507f1f77bcf86cd799439011'' (Some reqB) [docA])) = Some d' \<and>
         d_title d' = [])"
proof -
  have h1: "ObjectIDFromHex ''507f1f77bcf86cd799439011'' = Some oidA"
    by (simp add: ObjectIDFromHex_def fromHexChar_def oidA_def)
  have h2: "find (\<lambda>x. d_id x = oidA) [docA] = Some docA"
    by (simp add: docA_def)
  have h3: "Title reqB = []"
    by (simp add: reqB_def)
  have h4: "\<not> ClientErr envB"
    by (simp add: envB_def)
  show ?thesis
    using updateTask_empty_title [OF h1 h2 h3 h4] h1 h2 h3 h4 by simp
qed

end
